theory Spec2Isabelle
  imports Main
begin

section \<open>The example runner \<open>run_examples.py\<close>\<close>

text \<open>
  The driver script talks to the outside world only through a handful of calls:
  \<open>subprocess.run\<close>, \<open>requests.get\<close>, \<open>os.path.exists\<close>, \<open>input\<close>, \<open>print\<close>,
  \<open>sys.executable\<close>, \<open>os.environ\<close> and \<open>os.getcwd\<close>. The embedding makes each of them
  explicit: the world is a state of an arbitrary type \<open>'w\<close>, the operating system is a
  record of functions over it, and every function of the script takes the driver's state
  and returns its result together with the new state. What the script prints, the
  commands it runs and the prompts it shows are appended to a trace.
\<close>

subsection \<open>Exceptions and results\<close>

text \<open>
  The exception classes the script can meet. All of them are subclasses of
  \<open>Exception\<close>; \<open>OSError\<close> stands for every other error of a process launch
  (\<open>PermissionError\<close> and the like). Asynchronous signals (\<open>KeyboardInterrupt\<close>)
  are no outcome of a call and are outside the model.
\<close>

datatype exc =
    TimeoutExpired
  | CalledProcessError int
  | FileNotFoundError
  | OSError
  | EOFError

datatype 'a result = Returned 'a | Raised exc

subsection \<open>Child processes\<close>

text \<open>\<open>subprocess.CompletedProcess\<close>: the fields the script reads.\<close>

record completed =
  returncode :: int
  stdout :: string
  stderr :: string

text \<open>
  What the operating system does with an argument vector: the program is missing, the
  launch fails otherwise, or a child runs for some seconds and then ends with an exit
  code and its output.
\<close>

datatype proc = NoSuchProgram | SpawnFailed | Child nat completed

text \<open>
  \<open>subprocess.run(argv, check=..., timeout=...)\<close> seen from the caller: a missing
  program raises \<open>FileNotFoundError\<close>, a child that outlives the timeout is killed and
  \<open>TimeoutExpired\<close> is raised, \<open>check=True\<close> turns a non-zero exit code into
  \<open>CalledProcessError\<close>.
\<close>

fun expired :: "nat option \<Rightarrow> nat \<Rightarrow> bool" where
  "expired None rt = False"
| "expired (Some d) rt = (d < rt)"

fun run_outcome :: "bool \<Rightarrow> nat option \<Rightarrow> proc \<Rightarrow> completed result" where
  "run_outcome check timeout NoSuchProgram = Raised FileNotFoundError"
| "run_outcome check timeout SpawnFailed = Raised OSError"
| "run_outcome check timeout (Child rt cp) =
     (if expired timeout rt then Raised TimeoutExpired
      else if check \<and> returncode cp \<noteq> 0 then Raised (CalledProcessError (returncode cp))
      else Returned cp)"

text \<open>The wall-clock time the call takes: the child's running time, cut at the timeout.\<close>

fun run_elapsed :: "nat option \<Rightarrow> proc \<Rightarrow> nat" where
  "run_elapsed timeout NoSuchProgram = 0"
| "run_elapsed timeout SpawnFailed = 0"
| "run_elapsed None (Child rt cp) = rt"
| "run_elapsed (Some d) (Child rt cp) = min rt d"

subsection \<open>The trace\<close>

text \<open>
  The lines the script prints, in the order of the file. The rule of fifty \<open>=\<close>, the same
  rule after an empty line, and the captured output are printed in several places and
  have one constructor each.
\<close>

datatype msg =
    StartingQdrant
  | QdrantStarted
  | FailedToStartQdrant int
  | DockerNotFound
  | QdrantStopped
  | InstallingDependencies
  | DependenciesInstalled
  | FailedToInstallDependencies int
  | BlankAndRule
  | Rule
  | RunningExample string
  | ExampleCompleted
  | Text string
  | ExampleFailed
  | StdoutLabel string
  | StderrLabel string
  | ExampleTimedOut
  | ErrorRunningExample exc
  | RunningTests
  | AllTestsPassed
  | SomeTestsFailed
  | TestsTimedOut
  | ErrorRunningTests exc
  | Title
  | QdrantNotRunning
  | CannotProceedWithoutQdrant
  | PleaseStartManually
  | ManualCommand
  | QdrantIsRunning
  | UsingUv
  | CannotProceedWithoutDependencies
  | ExampleFileNotFound string
  | TestsDirectoryNotFound
  | AllCompleted

datatype prompt = StartPrompt | StopPrompt

datatype event =
    Print msg
  | Run "string list"
  | Get
  | Input prompt

subsection \<open>The operating system and the driver's state\<close>

record 'w os =
  spawn :: "string list \<Rightarrow> 'w \<Rightarrow> proc \<times> 'w"
  http_get :: "'w \<Rightarrow> nat option"
  path_exists :: "string \<Rightarrow> bool"
  executable :: string
  environ :: "string list"
  getcwd :: string

text \<open>
  \<open>http_get\<close> is the status code of \<open>GET http://localhost:6333/collections\<close>, or
  \<open>None\<close> when the request (or the import of \<open>requests\<close>) raises. \<open>path_exists\<close> is
  the file system the driver sees; the paths it asks about are not changed by the run.
  \<open>environ\<close> holds the names of the environment variables that are set.
\<close>

record 'w state =
  world :: 'w
  stdin :: "string list"
  out :: "event list"
  clock :: nat

definition emit :: "event \<Rightarrow> 'w state \<Rightarrow> 'w state" where
  "emit e s = s\<lparr>out := out s @ [e]\<rparr>"

definition subprocess_run ::
  "'w os \<Rightarrow> string list \<Rightarrow> bool \<Rightarrow> nat option \<Rightarrow> 'w state \<Rightarrow> completed result \<times> 'w state" where
  "subprocess_run sys argv check timeout s =
     (case spawn sys argv (world s) of
        (p, w') \<Rightarrow>
          (run_outcome check timeout p,
           s\<lparr>world := w', out := out s @ [Run argv], clock := clock s + run_elapsed timeout p\<rparr>))"

text \<open>\<open>input(prompt)\<close>: the next line of standard input, \<open>EOFError\<close> when there is none.\<close>

definition input :: "prompt \<Rightarrow> 'w state \<Rightarrow> string result \<times> 'w state" where
  "input p s =
     (case stdin s of
        [] \<Rightarrow> (Raised EOFError, emit (Input p) s)
      | l # ls \<Rightarrow> (Returned l, (emit (Input p) s)\<lparr>stdin := ls\<rparr>))"

subsection \<open>Strings\<close>

text \<open>
  \<open>str.lower\<close> on the letters \<open>A\<close> to \<open>Z\<close>; every other byte is left as it is. (No code
  point outside ASCII lowercases to the letter \<open>y\<close>, the only one the script compares with.)
\<close>

definition lower_char :: "char \<Rightarrow> char" where
  "lower_char c =
     (let n = (of_char c :: nat) in if 65 \<le> n \<and> n \<le> 90 then char_of (n + 32) else c)"

definition lower :: "string \<Rightarrow> string" where
  "lower s = map lower_char s"

text \<open>\<open>sub in s\<close> on strings.\<close>

fun contains :: "string \<Rightarrow> string \<Rightarrow> bool" where
  "contains sub [] = (sub = [])"
| "contains sub (c # cs) = (take (length sub) (c # cs) = sub \<or> contains sub cs)"

subsection \<open>The functions of the script\<close>

definition check_qdrant_running :: "'w os \<Rightarrow> 'w state \<Rightarrow> bool result \<times> 'w state" where
  "check_qdrant_running sys s =
     (case http_get sys (world s) of
        Some code \<Rightarrow> (Returned (code = 200), emit Get s)
      | None \<Rightarrow> (Returned False, emit Get s))"

definition container_name :: string where
  "container_name = ''qdrant-quickstart''"

definition docker_stop :: "string list" where
  "docker_stop = [''docker'', ''stop'', container_name]"

definition docker_rm :: "string list" where
  "docker_rm = [''docker'', ''rm'', container_name]"

definition docker_run :: "string \<Rightarrow> string list" where
  "docker_run cwd =
     [''docker'', ''run'', ''-d'', ''--name'', container_name,
      ''-p'', ''6333:6333'', ''-p'', ''6334:6334'',
      ''-v'', cwd @ ''/qdrant_storage:/qdrant/storage:z'',
      ''qdrant/qdrant'']"

text \<open>
  The inner \<open>try\<close> of \<open>start_qdrant\<close> (lines 25 to 29): it swallows whatever the two
  calls raise; when the first one raises, the second is not reached.
\<close>

definition remove_existing :: "'w os \<Rightarrow> 'w state \<Rightarrow> 'w state" where
  "remove_existing sys s1 =
     (case subprocess_run sys docker_stop False None s1 of
        (Raised e, s2) \<Rightarrow> s2
      | (Returned cp, s2) \<Rightarrow> snd (subprocess_run sys docker_rm False None s2))"

definition start_qdrant :: "'w os \<Rightarrow> 'w state \<Rightarrow> bool result \<times> 'w state" where
  "start_qdrant sys s0 =
     (let s3 = remove_existing sys (emit (Print StartingQdrant) s0)
      in case subprocess_run sys (docker_run (getcwd sys)) True None s3 of
           (Returned cp, s4) \<Rightarrow> (Returned True, emit (Print QdrantStarted) s4)
         | (Raised (CalledProcessError rc), s4) \<Rightarrow>
             (Returned False, emit (Print (FailedToStartQdrant rc)) s4)
         | (Raised FileNotFoundError, s4) \<Rightarrow> (Returned False, emit (Print DockerNotFound) s4)
         | (Raised e, s4) \<Rightarrow> (Raised e, s4))"

definition stop_qdrant :: "'w os \<Rightarrow> 'w state \<Rightarrow> unit result \<times> 'w state" where
  "stop_qdrant sys s0 =
     (case subprocess_run sys docker_stop True None s0 of
        (Raised e, s1) \<Rightarrow> (Returned (), s1)
      | (Returned cp, s1) \<Rightarrow>
          (case subprocess_run sys docker_rm True None s1 of
             (Raised e, s2) \<Rightarrow> (Returned (), s2)
           | (Returned cp', s2) \<Rightarrow> (Returned (), emit (Print QdrantStopped) s2)))"

definition pip_install :: "string list" where
  "pip_install = [''uv'', ''pip'', ''install'', ''-r'', ''requirements.txt'']"

definition install_dependencies :: "'w os \<Rightarrow> 'w state \<Rightarrow> bool result \<times> 'w state" where
  "install_dependencies sys s0 =
     (case subprocess_run sys pip_install True None (emit (Print InstallingDependencies) s0) of
        (Returned cp, s1) \<Rightarrow> (Returned True, emit (Print DependenciesInstalled) s1)
      | (Raised (CalledProcessError rc), s1) \<Rightarrow>
          (Returned False, emit (Print (FailedToInstallDependencies rc)) s1)
      | (Raised e, s1) \<Rightarrow> (Raised e, s1))"

definition uv_run :: "string \<Rightarrow> string list" where
  "uv_run script_path = [''uv'', ''run'', script_path]"

definition example_timeout :: nat where
  "example_timeout = 60"

definition run_example :: "'w os \<Rightarrow> string \<Rightarrow> string \<Rightarrow> 'w state \<Rightarrow> unit result \<times> 'w state" where
  "run_example sys example_name script_path s0 =
     (let s1 = emit (Print Rule) (emit (Print (RunningExample example_name))
                 (emit (Print BlankAndRule) s0))
      in case subprocess_run sys (uv_run script_path) False (Some example_timeout) s1 of
           (Returned cp, s2) \<Rightarrow>
             (if returncode cp = 0
              then (Returned (), emit (Print (Text (stdout cp))) (emit (Print ExampleCompleted) s2))
              else (Returned (),
                    emit (Print (StderrLabel (stderr cp)))
                      (emit (Print (StdoutLabel (stdout cp))) (emit (Print ExampleFailed) s2))))
         | (Raised TimeoutExpired, s2) \<Rightarrow> (Returned (), emit (Print ExampleTimedOut) s2)
         | (Raised e, s2) \<Rightarrow> (Returned (), emit (Print (ErrorRunningExample e)) s2))"

definition uv_pytest :: "string list" where
  "uv_pytest = [''uv'', ''run'', ''pytest'', ''tests/'', ''-v'']"

definition tests_timeout :: nat where
  "tests_timeout = 120"

definition run_tests :: "'w os \<Rightarrow> 'w state \<Rightarrow> unit result \<times> 'w state" where
  "run_tests sys s0 =
     (let s1 = emit (Print Rule) (emit (Print RunningTests) (emit (Print BlankAndRule) s0))
      in case subprocess_run sys uv_pytest False (Some tests_timeout) s1 of
           (Returned cp, s2) \<Rightarrow>
             (let s3 = emit (Print (Text (stdout cp))) s2;
                  s4 = (if stderr cp \<noteq> [] then emit (Print (StderrLabel (stderr cp))) s3 else s3)
              in if returncode cp = 0
                 then (Returned (), emit (Print AllTestsPassed) s4)
                 else (Returned (), emit (Print SomeTestsFailed) s4))
         | (Raised TimeoutExpired, s2) \<Rightarrow> (Returned (), emit (Print TestsTimedOut) s2)
         | (Raised e, s2) \<Rightarrow> (Returned (), emit (Print (ErrorRunningTests e)) s2))"

subsection \<open>The driver \<open>main\<close>\<close>

definition examples :: "(string \<times> string) list" where
  "examples =
     [(''Basic Example'', ''examples/basic_example.py''),
      (''Document Search'', ''examples/document_search.py''),
      (''Advanced Features'', ''examples/advanced_features.py'')]"

text \<open>
  The \<open>for\<close> loop over the examples. An exception that leaves \<open>run_example\<close> would
  leave the loop.
\<close>

fun run_examples ::
  "'w os \<Rightarrow> (string \<times> string) list \<Rightarrow> 'w state \<Rightarrow> unit result \<times> 'w state" where
  "run_examples sys [] s = (Returned (), s)"
| "run_examples sys ((name, path) # rest) s =
     (if path_exists sys path
      then (case run_example sys name path s of
              (Raised e, s') \<Rightarrow> (Raised e, s')
            | (Returned u, s') \<Rightarrow> run_examples sys rest s')
      else run_examples sys rest (emit (Print (ExampleFileNotFound path)) s))"

text \<open>Lines 167 to 174: the closing banner, the question, and the stop when the answer is yes.\<close>

definition main_teardown :: "'w os \<Rightarrow> 'w state \<Rightarrow> unit result \<times> 'w state" where
  "main_teardown sys s0 =
     (let s1 = emit (Print Rule) (emit (Print AllCompleted) (emit (Print BlankAndRule) s0))
      in case input StopPrompt s1 of
           (Raised e, s2) \<Rightarrow> (Raised e, s2)
         | (Returned response, s2) \<Rightarrow>
             (if lower response = ''y'' then stop_qdrant sys s2 else (Returned (), s2)))"

text \<open>Lines 148 to 174: the examples, the tests, the teardown.\<close>

definition main_tasks :: "'w os \<Rightarrow> 'w state \<Rightarrow> unit result \<times> 'w state" where
  "main_tasks sys s0 =
     (case run_examples sys examples s0 of
        (Raised e, s1) \<Rightarrow> (Raised e, s1)
      | (Returned u, s1) \<Rightarrow>
          (case (if path_exists sys ''tests/'' then run_tests sys s1
                 else (Returned (), emit (Print TestsDirectoryNotFound) s1)) of
             (Raised e, s2) \<Rightarrow> (Raised e, s2)
           | (Returned u', s2) \<Rightarrow> main_teardown sys s2))"

definition uses_uv :: "'w os \<Rightarrow> bool" where
  "uses_uv sys = (contains ''uv'' (executable sys) \<or> ''UV_RUNNING_DIR'' \<in> set (environ sys))"

text \<open>
  Lines 119 to 146, everything before the examples: \<open>Returned True\<close> when the driver goes
  on to the examples, \<open>Returned False\<close> when it leaves through one of its three \<open>return\<close>
  statements, \<open>Raised\<close> when an exception escapes.
\<close>

definition main_dependencies :: "'w os \<Rightarrow> 'w state \<Rightarrow> bool result \<times> 'w state" where
  "main_dependencies sys s0 =
     (if uses_uv sys then (Returned True, emit (Print UsingUv) s0)
      else (case install_dependencies sys s0 of
              (Raised e, s1) \<Rightarrow> (Raised e, s1)
            | (Returned ok, s1) \<Rightarrow>
                (if \<not> ok then (Returned False, emit (Print CannotProceedWithoutDependencies) s1)
                 else (Returned True, s1))))"

definition main_service :: "'w os \<Rightarrow> 'w state \<Rightarrow> bool result \<times> 'w state" where
  "main_service sys s0 =
     (let s1 = emit (Print Rule) (emit (Print Title) s0)
      in case check_qdrant_running sys s1 of
           (Raised e, s2) \<Rightarrow> (Raised e, s2)
         | (Returned up, s2) \<Rightarrow>
             (if \<not> up then
                (case input StartPrompt (emit (Print QdrantNotRunning) s2) of
                   (Raised e, s3) \<Rightarrow> (Raised e, s3)
                 | (Returned response, s3) \<Rightarrow>
                     (if lower response = ''y'' then
                        (case start_qdrant sys s3 of
                           (Raised e, s4) \<Rightarrow> (Raised e, s4)
                         | (Returned started, s4) \<Rightarrow>
                             (if \<not> started
                              then (Returned False, emit (Print CannotProceedWithoutQdrant) s4)
                              else (Returned True, s4)))
                      else (Returned False,
                            emit (Print ManualCommand) (emit (Print PleaseStartManually) s3))))
              else (Returned True, emit (Print QdrantIsRunning) s2)))"

definition main_setup :: "'w os \<Rightarrow> 'w state \<Rightarrow> bool result \<times> 'w state" where
  "main_setup sys s0 =
     (case main_service sys s0 of
        (Raised e, s1) \<Rightarrow> (Raised e, s1)
      | (Returned False, s1) \<Rightarrow> (Returned False, s1)
      | (Returned True, s1) \<Rightarrow> main_dependencies sys s1)"

definition main :: "'w os \<Rightarrow> 'w state \<Rightarrow> unit result \<times> 'w state" where
  "main sys s0 =
     (case main_setup sys s0 of
        (Raised e, s1) \<Rightarrow> (Raised e, s1)
      | (Returned False, s1) \<Rightarrow> (Returned (), s1)
      | (Returned True, s1) \<Rightarrow> main_tasks sys s1)"

text \<open>
  \<open>if __name__ == "__main__": main()\<close>: the interpreter ends with status 0 when \<open>main\<close>
  returns (whatever it returns) and with status 1 when an exception escapes it.
\<close>

definition exit_status :: "'w os \<Rightarrow> 'w state \<Rightarrow> int" where
  "exit_status sys s = (case fst (main sys s) of Returned u \<Rightarrow> 0 | Raised e \<Rightarrow> 1)"

text \<open>The state in which an invocation of the driver begins.\<close>

definition initial :: "'w \<Rightarrow> string list \<Rightarrow> 'w state" where
  "initial w lines = \<lparr>world = w, stdin = lines, out = [], clock = 0\<rparr>"

subsection \<open>Reading the trace\<close>

text \<open>
  The script returns nothing from \<open>run_example\<close> and \<open>run_tests\<close>: the outcome of a
  task is the status line it prints. The four statuses are read off those lines: the
  two \<open>Error running ...\<close> lines count as a failure, the two \<open>... not found\<close> lines
  of \<open>main\<close> as not found.
\<close>

datatype status = Completed | Failed | TimedOut | NotFound

fun status_of :: "event \<Rightarrow> status option" where
  "status_of (Print ExampleCompleted) = Some Completed"
| "status_of (Print ExampleFailed) = Some Failed"
| "status_of (Print ExampleTimedOut) = Some TimedOut"
| "status_of (Print (ErrorRunningExample e)) = Some Failed"
| "status_of (Print (ExampleFileNotFound p)) = Some NotFound"
| "status_of (Print AllTestsPassed) = Some Completed"
| "status_of (Print SomeTestsFailed) = Some Failed"
| "status_of (Print TestsTimedOut) = Some TimedOut"
| "status_of (Print (ErrorRunningTests e)) = Some Failed"
| "status_of (Print TestsDirectoryNotFound) = Some NotFound"
| "status_of e = None"

fun statuses :: "event list \<Rightarrow> status list" where
  "statuses [] = []"
| "statuses (e # tr) =
     (case status_of e of None \<Rightarrow> statuses tr | Some st \<Rightarrow> st # statuses tr)"

text \<open>The status that belongs to an outcome of \<open>subprocess.run\<close> without \<open>check\<close>.\<close>

fun outcome_status :: "completed result \<Rightarrow> status" where
  "outcome_status (Returned cp) = (if returncode cp = 0 then Completed else Failed)"
| "outcome_status (Raised TimeoutExpired) = TimedOut"
| "outcome_status (Raised e) = Failed"

text \<open>The commands of a trace, in the order they were run.\<close>

fun commands :: "event list \<Rightarrow> string list list" where
  "commands [] = []"
| "commands (Run argv # tr) = argv # commands tr"
| "commands (e # tr) = commands tr"

text \<open>
  What a trace says about the tasks: a task script (or the test suite) was launched, or
  it was reported missing.
\<close>

datatype attempt = Launched string | Missing string

fun attempt_of :: "event \<Rightarrow> attempt option" where
  "attempt_of (Run argv) =
     (if argv = uv_pytest then Some (Launched ''tests/'')
      else (case argv of
              [a, b, p] \<Rightarrow> if a = ''uv'' \<and> b = ''run'' then Some (Launched p) else None
            | _ \<Rightarrow> None))"
| "attempt_of (Print (ExampleFileNotFound p)) = Some (Missing p)"
| "attempt_of (Print TestsDirectoryNotFound) = Some (Missing ''tests/'')"
| "attempt_of e = None"

fun attempts :: "event list \<Rightarrow> attempt list" where
  "attempts [] = []"
| "attempts (e # tr) =
     (case attempt_of e of None \<Rightarrow> attempts tr | Some a \<Rightarrow> a # attempts tr)"

text \<open>What the driver does with a task at a path, given the files that exist.\<close>

definition planned :: "'w os \<Rightarrow> string \<Rightarrow> attempt" where
  "planned sys p = (if path_exists sys p then Launched p else Missing p)"



text \<open>How often the teardown question of lines 172 to 174 was reached.\<close>

definition cleanup_count :: "event list \<Rightarrow> nat" where
  "cleanup_count tr = length (filter (\<lambda>e. e = Input StopPrompt) tr)"

text \<open>
  The state in which \<open>main\<close> calls \<open>start_qdrant\<close>: the service did not answer and the
  first line of input was a yes.
\<close>

definition asked :: "'w \<Rightarrow> string list \<Rightarrow> 'w state" where
  "asked w rest =
     \<lparr>world = w, stdin = rest,
      out = [Print Title, Print Rule, Get, Print QdrantNotRunning, Input StartPrompt],
      clock = 0\<rparr>"

text \<open>
  The two ways a launch fails that \<open>start_qdrant\<close> reports by returning \<open>False\<close>: there
  is no \<open>docker\<close> program, or \<open>docker run\<close> ends with a non-zero exit code.
\<close>

fun start_fails :: "proc \<Rightarrow> bool" where
  "start_fails NoSuchProgram = True"
| "start_fails SpawnFailed = False"
| "start_fails (Child rt cp) = (returncode cp \<noteq> 0)"

text \<open>\<open>start_qdrant\<close> called \<open>k\<close> times in a row.\<close>

fun start_times :: "nat \<Rightarrow> 'w os \<Rightarrow> 'w state \<Rightarrow> 'w state" where
  "start_times 0 sys s = s"
| "start_times (Suc k) sys s = start_times k sys (snd (start_qdrant sys s))"

subsection \<open>A machine to run the driver on\<close>

text \<open>
  A concrete world for the closed examples below, and for the statements about what
  the Docker commands leave behind: a Docker engine with its containers (each with an
  identifier of its own, a name and whether it is running), the \<open>uv\<close> tool, and the
  scripts with the time they take and their exit code.

  The engine follows Docker's command line: \<open>stop\<close> and \<open>rm\<close> of a name that no
  container has end with status 1, \<open>rm\<close> refuses a running container, \<open>run --name\<close>
  refuses a name that is in use (status 125), and otherwise creates a running container
  unless the launch itself fails with \<open>launch_rc\<close>.
\<close>

record container =
  cid :: nat
  cname :: string
  running :: bool

record machine =
  docker_installed :: bool
  containers :: "container list"
  next_cid :: nat
  launch_rc :: int
  uv_installed :: bool
  pip_rc :: int
  scripts :: "(string \<times> nat \<times> int) list"
  pytest :: "nat \<times> int"

definition exited :: "nat \<Rightarrow> int \<Rightarrow> proc" where
  "exited rt rc = Child rt \<lparr>returncode = rc, stdout = [], stderr = []\<rparr>"

definition named :: "string \<Rightarrow> machine \<Rightarrow> container list" where
  "named n m = filter (\<lambda>c. cname c = n) (containers m)"

definition live :: "string \<Rightarrow> machine \<Rightarrow> container list" where
  "live n m = filter running (named n m)"

definition engine_stop :: "string \<Rightarrow> machine \<Rightarrow> proc \<times> machine" where
  "engine_stop n m =
     (if named n m = [] then (exited 0 1, m)
      else (exited 0 0,
            m\<lparr>containers := map (\<lambda>c. if cname c = n then c\<lparr>running := False\<rparr> else c)
                               (containers m)\<rparr>))"

definition engine_rm :: "string \<Rightarrow> machine \<Rightarrow> proc \<times> machine" where
  "engine_rm n m =
     (if named n m = [] \<or> live n m \<noteq> [] then (exited 0 1, m)
      else (exited 0 0, m\<lparr>containers := filter (\<lambda>c. cname c \<noteq> n) (containers m)\<rparr>))"

definition engine_run :: "string \<Rightarrow> machine \<Rightarrow> proc \<times> machine" where
  "engine_run n m =
     (if named n m \<noteq> [] then (exited 0 125, m)
      else if launch_rc m \<noteq> 0 then (exited 0 (launch_rc m), m)
      else (exited 0 0,
            m\<lparr>containers := containers m @ [\<lparr>cid = next_cid m, cname = n, running = True\<rparr>],
              next_cid := Suc (next_cid m)\<rparr>))"

definition docker :: "string list \<Rightarrow> machine \<Rightarrow> proc \<times> machine" where
  "docker args m =
     (case args of
        [sub, n] \<Rightarrow>
          (if sub = ''stop'' then engine_stop n m
           else if sub = ''rm'' then engine_rm n m
           else (exited 0 1, m))
      | sub # d # opt # n # rest \<Rightarrow>
          (if sub = ''run'' \<and> opt = ''--name'' then engine_run n m else (exited 0 1, m))
      | _ \<Rightarrow> (exited 0 1, m))"

definition uv :: "string list \<Rightarrow> machine \<Rightarrow> proc \<times> machine" where
  "uv args m =
     (if args = [''pip'', ''install'', ''-r'', ''requirements.txt''] then (exited 0 (pip_rc m), m)
      else if args = [''run'', ''pytest'', ''tests/'', ''-v'']
        then (exited (fst (pytest m)) (snd (pytest m)), m)
      else (case args of
              [sub, path] \<Rightarrow>
                (if sub = ''run'' then
                   (case map_of (scripts m) path of
                      Some (rt, rc) \<Rightarrow> (exited rt rc, m)
                    | None \<Rightarrow> (exited 0 2, m))
                 else (exited 0 2, m))
            | _ \<Rightarrow> (exited 0 2, m)))"

definition machine_spawn :: "string list \<Rightarrow> machine \<Rightarrow> proc \<times> machine" where
  "machine_spawn argv m =
     (case argv of
        [] \<Rightarrow> (NoSuchProgram, m)
      | prog # args \<Rightarrow>
          (if prog = ''docker'' then (if docker_installed m then docker args m else (NoSuchProgram, m))
           else if prog = ''uv'' then (if uv_installed m then uv args m else (NoSuchProgram, m))
           else (NoSuchProgram, m)))"

text \<open>
  What \<open>docker stop\<close> followed by \<open>docker rm\<close> leaves of the machine, and what a
  successful launch after them adds.
\<close>

definition purge :: "machine \<Rightarrow> machine" where
  "purge m = m\<lparr>containers := filter (\<lambda>c. cname c \<noteq> container_name) (containers m)\<rparr>"

definition launched :: "machine \<Rightarrow> machine" where
  "launched m =
     (purge m)\<lparr>containers :=
                 containers (purge m) @ [\<lparr>cid = next_cid m, cname = container_name, running = True\<rparr>],
               next_cid := Suc (next_cid m)\<rparr>"

text \<open>The service answers on its port exactly when the container is running.\<close>

definition machine_os :: "string list \<Rightarrow> string \<Rightarrow> string list \<Rightarrow> machine os" where
  "machine_os files exe env =
     \<lparr>spawn = machine_spawn,
      http_get = (\<lambda>m. if live container_name m \<noteq> [] then Some 200 else None),
      path_exists = (\<lambda>p. p \<in> set files),
      executable = exe,
      environ = env,
      getcwd = ''/home/user/qdrant-quickstart''\<rparr>"

text \<open>A checkout with all its files, run by the system's Python or by \<open>uv\<close>.\<close>

definition all_files :: "string list" where
  "all_files = map snd examples @ [''tests/'']"

definition plain_os :: "machine os" where
  "plain_os = machine_os all_files ''/usr/bin/python3'' []"

definition uv_os :: "machine os" where
  "uv_os = machine_os all_files ''/home/user/.cache/uv/python3'' []"

text \<open>A machine on which everything works, and nothing is running yet.\<close>

definition healthy :: machine where
  "healthy =
     \<lparr>docker_installed = True, containers = [], next_cid = 0, launch_rc = 0,
      uv_installed = True, pip_rc = 0,
      scripts = map (\<lambda>(n, p). (p, 3, 0)) examples,
      pytest = (10, 0)\<rparr>"

text \<open>The same machine with the service already up, under the script's container name.\<close>

definition serving :: machine where
  "serving =
     healthy\<lparr>containers := [\<lparr>cid = 0, cname = container_name, running = True\<rparr>], next_cid := 1\<rparr>"

text \<open>A machine whose first example and test suite run far longer than their timeouts.\<close>

definition slow :: machine where
  "slow = healthy\<lparr>scripts := [(''examples/basic_example.py'', 75, 0)], pytest := (500, 1)\<rparr>"

text \<open>A machine on which the installation of the dependencies fails.\<close>

definition broken_pip :: machine where
  "broken_pip = healthy\<lparr>pip_rc := 1\<rparr>"

text \<open>
  A machine with the service up whose first example fails, and a checkout in which
  the second example is missing.
\<close>

definition flaky :: machine where
  "flaky =
     serving\<lparr>scripts := [(''examples/basic_example.py'', 3, 1),
                          (''examples/advanced_features.py'', 3, 0)]\<rparr>"

definition partial_os :: "machine os" where
  "partial_os =
     machine_os [''examples/basic_example.py'', ''examples/advanced_features.py'', ''tests/'']
       ''/home/user/.cache/uv/python3'' []"

text \<open>A machine without Docker, and one on which the launch of the image fails.\<close>

definition dockerless :: machine where
  "dockerless = healthy\<lparr>docker_installed := False\<rparr>"

definition no_image :: machine where
  "no_image = healthy\<lparr>launch_rc := 125\<rparr>"

text \<open>A machine without \<open>uv\<close>.\<close>

definition no_uv :: machine where
  "no_uv = healthy\<lparr>uv_installed := False\<rparr>"

section \<open>Properties\<close>

subsection \<open>Basic facts\<close>

lemma emit_out: "out (emit e s) = out s @ [e]"
  by (simp add: emit_def)

lemma emit_world: "world (emit e s) = world s"
  by (simp add: emit_def)

lemma emit_stdin: "stdin (emit e s) = stdin s"
  by (simp add: emit_def)

lemma emit_clock: "clock (emit e s) = clock s"
  by (simp add: emit_def)

lemma cleanup_count_Nil: "cleanup_count [] = 0"
  by (simp add: cleanup_count_def)

lemma cleanup_count_Cons:
  "cleanup_count (e # tr) = (if e = Input StopPrompt then 1 else 0) + cleanup_count tr"
  by (simp add: cleanup_count_def)

lemma statuses_append: "statuses (xs @ ys) = statuses xs @ statuses ys"
  by (induction xs) (simp_all split: option.splits)

lemma attempts_append: "attempts (xs @ ys) = attempts xs @ attempts ys"
  by (induction xs) (simp_all split: option.splits)

lemma commands_append: "commands (xs @ ys) = commands xs @ commands ys"
  by (induction xs rule: commands.induct) simp_all

lemma cleanup_count_append: "cleanup_count (xs @ ys) = cleanup_count xs + cleanup_count ys"
  by (simp add: cleanup_count_def)

lemmas run_defs = subprocess_run_def Let_def emit_out emit_world emit_stdin emit_clock
  cleanup_count_append cleanup_count_Nil cleanup_count_Cons

subsection \<open>Lowercase\<close>

lemma lower_char_y: "lower_char c = CHR ''y'' \<longleftrightarrow> c = CHR ''y'' \<or> c = CHR ''Y''"
proof (cases c)
  case (Char b0 b1 b2 b3 b4 b5 b6 b7)
  then show ?thesis
    by (cases b0; cases b1; cases b2; cases b3; cases b4; cases b5; cases b6; cases b7)
       (simp_all add: lower_char_def Let_def char_of_def bit_Suc_0_iff)
qed

lemma lower_y: "lower r = ''y'' \<longleftrightarrow> r = ''y'' \<or> r = ''Y''"
proof (cases r)
  case Nil
  then show ?thesis by (simp add: lower_def)
next
  case (Cons c cs)
  then show ?thesis by (cases cs) (auto simp add: lower_def lower_char_y)
qed

subsection \<open>One task\<close>

lemma run_example_returns: "fst (run_example sys n p s) = Returned ()"
  by (simp add: run_example_def subprocess_run_def Let_def split: prod.splits result.splits exc.splits)

lemma run_tests_returns: "fst (run_tests sys s) = Returned ()"
  by (simp add: run_tests_def subprocess_run_def Let_def split: prod.splits result.splits exc.splits)

lemma stop_qdrant_returns: "fst (stop_qdrant sys s) = Returned ()"
  by (simp add: stop_qdrant_def subprocess_run_def Let_def split: prod.splits result.splits exc.splits)

lemma run_example_statuses:
  "statuses (out (snd (run_example sys n p s))) =
     statuses (out s) @ [outcome_status (run_outcome False (Some example_timeout) (fst (spawn sys (uv_run p) (world s))))]"
  by (cases "spawn sys (uv_run p) (world s)"; cases "fst (spawn sys (uv_run p) (world s))")
    (auto simp add: run_example_def subprocess_run_def Let_def emit_def statuses_append split: prod.splits result.splits exc.splits)

lemma run_tests_statuses:
  "statuses (out (snd (run_tests sys s))) =
     statuses (out s) @ [outcome_status (run_outcome False (Some tests_timeout) (fst (spawn sys uv_pytest (world s))))]"
  by (cases "spawn sys uv_pytest (world s)"; cases "fst (spawn sys uv_pytest (world s))")
    (auto simp add: run_tests_def subprocess_run_def Let_def emit_def statuses_append split: prod.splits result.splits exc.splits)

lemma run_example_attempts:
  "attempts (out (snd (run_example sys n p s))) = attempts (out s) @ [Launched p]"
  by (cases "spawn sys (uv_run p) (world s)"; cases "fst (spawn sys (uv_run p) (world s))")
    (auto simp add: run_example_def subprocess_run_def Let_def emit_def attempts_append uv_run_def uv_pytest_def split: prod.splits result.splits exc.splits)

lemma run_tests_attempts:
  "attempts (out (snd (run_tests sys s))) = attempts (out s) @ [Launched ''tests/'']"
  by (cases "spawn sys uv_pytest (world s)"; cases "fst (spawn sys uv_pytest (world s))")
    (auto simp add: run_tests_def subprocess_run_def Let_def emit_def attempts_append uv_pytest_def split: prod.splits result.splits exc.splits)

lemma run_example_stdin: "stdin (snd (run_example sys n p s)) = stdin s"
  by (simp add: run_example_def run_defs split: prod.splits result.splits exc.splits)

lemma run_tests_stdin: "stdin (snd (run_tests sys s)) = stdin s"
  by (simp add: run_tests_def run_defs split: prod.splits result.splits exc.splits)

text \<open>
  Claim C4. Neither \<open>run_example\<close> nor \<open>run_tests\<close> lets an exception out, whatever the
  operating system does with the command: a missing program, a launch that fails, a
  child that runs into the timeout, and any exit code all end in a normal return, and
  the output gains exactly one status line, which is one of the four statuses. A script
  that does not exist is reported by the loop as not found, without any launch.
\<close>

theorem task_executor_never_raises:
  "fst (run_example sys n p s) = Returned ()
   \<and> statuses (out (snd (run_example sys n p s))) =
       statuses (out s) @
       [outcome_status (run_outcome False (Some example_timeout) (fst (spawn sys (uv_run p) (world s))))]
   \<and> fst (run_tests sys s) = Returned ()
   \<and> statuses (out (snd (run_tests sys s))) =
       statuses (out s) @
       [outcome_status (run_outcome False (Some tests_timeout) (fst (spawn sys uv_pytest (world s))))]
   \<and> fst (run_examples sys [(n, p)] s) = Returned ()
   \<and> statuses (out (snd (run_examples sys [(n, p)] s))) =
       statuses (out s) @
       [if path_exists sys p
        then outcome_status (run_outcome False (Some example_timeout) (fst (spawn sys (uv_run p) (world s))))
        else NotFound]"
proof -
  obtain s' where r: "run_example sys n p s = (Returned (), s')"
    using run_example_returns [of sys n p s] by (cases "run_example sys n p s") simp
  have "statuses (out s') =
          statuses (out s) @
          [outcome_status (run_outcome False (Some example_timeout) (fst (spawn sys (uv_run p) (world s))))]"
    using run_example_statuses [of sys n p s] by (simp add: r)
  then show ?thesis
    by (simp add: run_example_returns run_example_statuses run_tests_returns run_tests_statuses r
          emit_out statuses_append)
qed

theorem task_executor_never_raises_witness:
  "fst (run_example plain_os ''Basic Example'' ''examples/basic_example.py'' (initial no_uv [])) =
     Returned ()
   \<and> statuses (out (snd (run_example plain_os ''Basic Example'' ''examples/basic_example.py''
                            (initial no_uv [])))) = [Failed]
   \<and> statuses (out (snd (run_tests plain_os (initial slow [])))) = [TimedOut]
   \<and> statuses (out (snd (run_examples plain_os [(''Nothing'', ''examples/nothing.py'')]
                            (initial healthy [])))) = [NotFound]"
proof -
  have a: "outcome_status (run_outcome False (Some example_timeout)
             (fst (spawn plain_os (uv_run ''examples/basic_example.py'') (world (initial no_uv []))))) =
           Failed"
    by code_simp
  have b: "outcome_status (run_outcome False (Some tests_timeout)
             (fst (spawn plain_os uv_pytest (world (initial slow []))))) = TimedOut"
    by code_simp
  have c: "\<not> path_exists plain_os ''examples/nothing.py''"
    by code_simp
  show ?thesis
    using task_executor_never_raises
            [of plain_os "''Basic Example''" "''examples/basic_example.py''" "initial no_uv []"]
          task_executor_never_raises [of plain_os "''Nothing''" "''examples/nothing.py''" "initial slow []"]
          task_executor_never_raises [of plain_os "''Nothing''" "''examples/nothing.py''" "initial healthy []"]
          a b c
    by (simp add: initial_def)
qed

text \<open>
  Claim C6. When the child of a task runs longer than the task's timeout (60 seconds for
  an example, 120 for the test suite), the call returns normally at the timeout: the
  clock has advanced by exactly the timeout, the only status line is the one for a
  timeout, and nothing of the child's exit code or output reaches the trace.
\<close>

theorem run_example_timeout:
  "(spawn sys (uv_run p) (world s) = (Child rt cp, w') \<and> example_timeout < rt \<longrightarrow>
      run_example sys n p s =
        (Returned (),
         \<lparr>world = w', stdin = stdin s,
          out = out s @ [Print BlankAndRule, Print (RunningExample n), Print Rule,
                         Run (uv_run p), Print ExampleTimedOut],
          clock = clock s + example_timeout\<rparr>))
   \<and> (spawn sys uv_pytest (world s) = (Child rt cp, w') \<and> tests_timeout < rt \<longrightarrow>
      run_tests sys s =
        (Returned (),
         \<lparr>world = w', stdin = stdin s,
          out = out s @ [Print BlankAndRule, Print RunningTests, Print Rule,
                         Run uv_pytest, Print TestsTimedOut],
          clock = clock s + tests_timeout\<rparr>))"
  by (simp add: run_example_def run_tests_def subprocess_run_def emit_def Let_def)

theorem run_example_timeout_witness:
  "run_example plain_os ''Basic Example'' ''examples/basic_example.py'' (initial slow []) =
     (Returned (),
      \<lparr>world = slow, stdin = [],
       out = [Print BlankAndRule, Print (RunningExample ''Basic Example''), Print Rule,
              Run (uv_run ''examples/basic_example.py''), Print ExampleTimedOut],
       clock = 60\<rparr>)
   \<and> run_tests plain_os (initial slow []) =
     (Returned (),
      \<lparr>world = slow, stdin = [],
       out = [Print BlankAndRule, Print RunningTests, Print Rule, Run uv_pytest, Print TestsTimedOut],
       clock = 120\<rparr>)"
proof -
  have a: "spawn plain_os (uv_run ''examples/basic_example.py'') (world (initial slow [])) = (Child 75 \<lparr>returncode = 0, stdout = [], stderr = []\<rparr>, slow)"
    by (simp add: plain_os_def machine_os_def machine_spawn_def uv_run_def uv_def initial_def slow_def healthy_def exited_def)
  have b: "spawn plain_os uv_pytest (world (initial slow [])) = (Child 500 \<lparr>returncode = 1, stdout = [], stderr = []\<rparr>, slow)"
    by (simp add: plain_os_def machine_os_def machine_spawn_def uv_pytest_def uv_def initial_def slow_def healthy_def exited_def)
  show ?thesis
    using run_example_timeout [of plain_os "''examples/basic_example.py''" "initial slow []" 75 "\<lparr>returncode = 0, stdout = [], stderr = []\<rparr>" slow "''Basic Example''"]
          run_example_timeout [of plain_os _ "initial slow []" 500 "\<lparr>returncode = 1, stdout = [], stderr = []\<rparr>" slow]
          a b
    by (simp add: example_timeout_def tests_timeout_def initial_def)
qed

subsection \<open>The loop over the tasks\<close>

lemma run_examples_returns: "fst (run_examples sys xs s) = Returned ()"
proof (induction xs arbitrary: s)
  case Nil
  show ?case by simp
next
  case (Cons x xs)
  obtain n p where x: "x = (n, p)" by (cases x)
  obtain s' where r: "run_example sys n p s = (Returned (), s')"
    using run_example_returns [of sys n p s] by (cases "run_example sys n p s") simp
  show ?case using Cons.IH by (simp add: x r)
qed

lemma run_examples_attempts:
  "attempts (out (snd (run_examples sys xs s))) = attempts (out s) @ map (planned sys) (map snd xs)"
proof (induction xs arbitrary: s)
  case Nil
  show ?case by simp
next
  case (Cons x xs)
  obtain n p where x: "x = (n, p)" by (cases x)
  obtain s' where r: "run_example sys n p s = (Returned (), s')"
    using run_example_returns [of sys n p s] by (cases "run_example sys n p s") simp
  have a: "attempts (out s') = attempts (out s) @ [Launched p]"
    using run_example_attempts [of sys n p s] by (simp add: r)
  show ?case
  proof (cases "path_exists sys p")
    case True
    then show ?thesis using Cons.IH [of s'] by (simp add: x r a planned_def)
  next
    case False
    then show ?thesis
      using Cons.IH [of "emit (Print (ExampleFileNotFound p)) s"]
      by (simp add: x planned_def emit_def attempts_append)
  qed
qed

lemma stop_qdrant_attempts: "attempts (out (snd (stop_qdrant sys s))) = attempts (out s)"
  by (cases "spawn sys docker_stop (world s)")
    (auto simp add: stop_qdrant_def subprocess_run_def Let_def emit_def attempts_append
      docker_stop_def docker_rm_def uv_pytest_def split: prod.splits result.splits exc.splits)

lemma main_teardown_attempts: "attempts (out (snd (main_teardown sys s))) = attempts (out s)"
  by (cases "stdin s")
    (simp_all add: main_teardown_def input_def Let_def emit_def attempts_append stop_qdrant_attempts)

lemma main_tasks_attempts:
  "attempts (out (snd (main_tasks sys s))) =
     attempts (out s) @ map (planned sys) (map snd examples @ [''tests/''])"
proof -
  obtain s1 where r1: "run_examples sys examples s = (Returned (), s1)"
    using run_examples_returns [of sys examples s] by (cases "run_examples sys examples s") simp
  have a1: "attempts (out s1) = attempts (out s) @ map (planned sys) (map snd examples)"
    using run_examples_attempts [of sys examples s] by (simp add: r1)
  show ?thesis
  proof (cases "path_exists sys ''tests/''")
    case True
    obtain s2 where r2: "run_tests sys s1 = (Returned (), s2)"
      using run_tests_returns [of sys s1] by (cases "run_tests sys s1") simp
    have a2: "attempts (out s2) = attempts (out s1) @ [Launched ''tests/'']"
      using run_tests_attempts [of sys s1] by (simp add: r2)
    show ?thesis
      using True by (simp add: main_tasks_def r1 r2 main_teardown_attempts a1 a2 planned_def)
  next
    case False
    then show ?thesis
      by (simp add: main_tasks_def r1 main_teardown_attempts a1 planned_def emit_def attempts_append)
  qed
qed

lemma run_examples_statuses:
  "length (statuses (out (snd (run_examples sys xs s)))) = length (statuses (out s)) + length xs"
proof (induction xs arbitrary: s)
  case Nil
  show ?case by simp
next
  case (Cons x xs)
  obtain n p where x: "x = (n, p)" by (cases x)
  obtain s' where r: "run_example sys n p s = (Returned (), s')"
    using run_example_returns [of sys n p s] by (cases "run_example sys n p s") simp
  have a: "length (statuses (out s')) = Suc (length (statuses (out s)))"
    using run_example_statuses [of sys n p s] by (simp add: r)
  show ?case
  proof (cases "path_exists sys p")
    case True
    then show ?thesis using Cons.IH [of s'] by (simp add: x r a)
  next
    case False
    then show ?thesis
      using Cons.IH [of "emit (Print (ExampleFileNotFound p)) s"]
      by (simp add: x emit_def statuses_append)
  qed
qed

text \<open>
  Claim C5. The loop goes through every configured task in order, whatever the earlier
  tasks did: it returns normally, each task is either launched or, when its script does
  not exist, reported missing, in the order of the list, and each leaves exactly one
  status line. In \<open>main\<close> the three examples are followed by the test suite.
\<close>

theorem every_task_attempted:
  "fst (run_examples sys xs s) = Returned ()
   \<and> attempts (out (snd (run_examples sys xs s))) = attempts (out s) @ map (planned sys) (map snd xs)
   \<and> length (statuses (out (snd (run_examples sys xs s)))) = length (statuses (out s)) + length xs
   \<and> attempts (out (snd (main_tasks sys s))) =
       attempts (out s) @ map (planned sys) (map snd examples @ [''tests/''])"
  by (simp only: run_examples_returns run_examples_attempts run_examples_statuses
        main_tasks_attempts simp_thms)

theorem every_task_attempted_witness:
  "statuses (out (snd (main_tasks partial_os (initial flaky [''n''])))) =
     [Failed, NotFound, Completed, Completed]
   \<and> attempts (out (snd (main_tasks partial_os (initial flaky [''n''])))) =
     [Launched ''examples/basic_example.py'', Missing ''examples/document_search.py'',
      Launched ''examples/advanced_features.py'', Launched ''tests/'']"
proof -
  have a: "statuses (out (snd (main_tasks partial_os (initial flaky [''n''])))) =
             [Failed, NotFound, Completed, Completed]"
    by code_simp
  have b: "map (planned partial_os) (map snd examples @ [''tests/'']) =
             [Launched ''examples/basic_example.py'', Missing ''examples/document_search.py'',
              Launched ''examples/advanced_features.py'', Launched ''tests/'']"
    by code_simp
  show ?thesis
    using every_task_attempted [of partial_os "[]" "initial flaky [''n'']"] a b
    by (simp add: initial_def)
qed

subsection \<open>The Docker commands\<close>

lemma machine_stop:
  "spawn (machine_os f e v) docker_stop m =
     (if docker_installed m then engine_stop container_name m else (NoSuchProgram, m))"
  by (simp add: machine_os_def machine_spawn_def docker_stop_def docker_def)

lemma machine_rm:
  "spawn (machine_os f e v) docker_rm m =
     (if docker_installed m then engine_rm container_name m else (NoSuchProgram, m))"
  by (simp add: machine_os_def machine_spawn_def docker_rm_def docker_def)

lemma machine_run:
  "spawn (machine_os f e v) (docker_run cwd) m =
     (if docker_installed m then engine_run container_name m else (NoSuchProgram, m))"
  by (simp add: machine_os_def machine_spawn_def docker_run_def docker_def)

lemma filter_named_empty:
  "filter (\<lambda>c. cname c = n) cs = [] \<Longrightarrow> filter (\<lambda>c. cname c \<noteq> n) cs = cs"
  by (induction cs) (auto split: if_splits)

lemma named_purge: "named container_name (purge m) = []"
  by (simp add: named_def purge_def)

lemma purge_idem: "named container_name m = [] \<Longrightarrow> purge m = m"
  by (simp add: purge_def named_def filter_named_empty)

lemma live_stopped:
  "filter running (filter (\<lambda>c. cname c = n) (map (\<lambda>c. if cname c = n then c\<lparr>running := False\<rparr> else c) cs)) = []"
  by (induction cs) auto

lemma live_stopped':
  "filter (\<lambda>c. cname c = n \<and> running c) (map (\<lambda>c. if cname c = n then c\<lparr>running := False\<rparr> else c) cs) = []"
  by (induction cs) auto

lemma named_stopped:
  "filter (\<lambda>c. cname c \<noteq> n) (map (\<lambda>c. if cname c = n then c\<lparr>running := False\<rparr> else c) cs) = filter (\<lambda>c. cname c \<noteq> n) cs"
  by (induction cs) auto

lemma named_stopped_empty:
  "filter (\<lambda>c. cname c = n) (map (\<lambda>c. if cname c = n then c\<lparr>running := False\<rparr> else c) cs) = [] \<longleftrightarrow> filter (\<lambda>c. cname c = n) cs = []"
  by (induction cs) auto

lemma stop_then_rm:
  "snd (engine_rm n (snd (engine_stop n m))) = m\<lparr>containers := filter (\<lambda>c. cname c \<noteq> n) (containers m)\<rparr>"
  by (simp add: engine_rm_def engine_stop_def named_def live_def live_stopped live_stopped' named_stopped named_stopped_empty filter_named_empty)

lemma stop_qdrant_machine:
  "world (snd (stop_qdrant (machine_os f e v) s)) =
     (if docker_installed (world s) then purge (world s) else world s)"
  by (auto simp add: stop_qdrant_def subprocess_run_def machine_stop machine_rm emit_def
        engine_stop_def engine_rm_def exited_def purge_def named_def live_def
        live_stopped live_stopped' named_stopped named_stopped_empty filter_named_empty
      split: prod.splits result.splits exc.splits)

lemma start_qdrant_machine:
  "world (snd (start_qdrant (machine_os f e v) s)) =
     (if \<not> docker_installed (world s) then world s
      else if launch_rc (world s) \<noteq> 0 then purge (world s)
      else launched (world s))"
  by (auto simp add: start_qdrant_def remove_existing_def subprocess_run_def machine_stop machine_rm machine_run emit_def Let_def
        engine_stop_def engine_rm_def engine_run_def exited_def purge_def launched_def named_def live_def
        live_stopped live_stopped' named_stopped named_stopped_empty filter_named_empty
      split: prod.splits result.splits exc.splits)

lemma start_qdrant_machine_result:
  "fst (start_qdrant (machine_os f e v) s) =
     Returned (docker_installed (world s) \<and> launch_rc (world s) = 0)"
  by (auto simp add: start_qdrant_def remove_existing_def subprocess_run_def machine_stop machine_rm machine_run emit_def Let_def
        engine_stop_def engine_rm_def engine_run_def exited_def purge_def launched_def named_def live_def
        live_stopped live_stopped' named_stopped named_stopped_empty filter_named_empty
      split: prod.splits result.splits exc.splits)

lemma live_purge: "live container_name (purge m) = []"
  by (simp add: live_def named_purge)

lemma named_launched:
  "named container_name (launched m) = [\<lparr>cid = next_cid m, cname = container_name, running = True\<rparr>]"
  by (simp add: launched_def named_def purge_def)

lemma live_launched:
  "live container_name (launched m) = [\<lparr>cid = next_cid m, cname = container_name, running = True\<rparr>]"
  by (simp add: live_def named_launched)

lemma start_qdrant_live:
  "length (live container_name (world s)) \<le> 1 \<Longrightarrow>
   length (live container_name (world (snd (start_qdrant (machine_os f e v) s)))) \<le> 1"
  by (simp add: start_qdrant_machine live_purge live_launched)

lemma start_times_live:
  "length (live container_name (world s)) \<le> 1 \<Longrightarrow>
   length (live container_name (world (start_times k (machine_os f e v) s))) \<le> 1"
proof (induction k arbitrary: s)
  case 0
  then show ?case by simp
next
  case (Suc k)
  show ?case using Suc.IH [OF start_qdrant_live [OF Suc.prems]] by simp
qed

lemma start_times_fresh:
  "docker_installed (world s) \<Longrightarrow> launch_rc (world s) = 0 \<Longrightarrow>
   named container_name (world (start_times (Suc k) (machine_os f e v) s)) =
     [\<lparr>cid = next_cid (world s) + k, cname = container_name, running = True\<rparr>]"
proof (induction k arbitrary: s)
  case 0
  then show ?case by (simp add: start_qdrant_machine named_launched)
next
  case (Suc k)
  let ?s' = "snd (start_qdrant (machine_os f e v) s)"
  have w: "world ?s' = launched (world s)"
    using Suc.prems by (simp add: start_qdrant_machine)
  have i: "docker_installed (world ?s')" and l: "launch_rc (world ?s') = 0"
    and n: "next_cid (world ?s') = Suc (next_cid (world s))"
    using Suc.prems by (simp_all add: w launched_def purge_def)
  show ?case using Suc.IH [OF i l] by (simp add: n)
qed

lemma start_qdrant_commands:
  "commands (out (snd (start_qdrant sys s))) =
     commands (out s) @ docker_stop #
       (case fst (spawn sys docker_stop (world s)) of Child rt cp \<Rightarrow> [docker_rm] | _ \<Rightarrow> []) @
       [docker_run (getcwd sys)]"
  by (cases "spawn sys docker_stop (world s)"; cases "fst (spawn sys docker_stop (world s))")
     (auto simp add: start_qdrant_def remove_existing_def subprocess_run_def emit_def Let_def commands_append
      split: prod.splits result.splits exc.splits)

lemma stop_twice_out:
  "out (snd (stop_qdrant (machine_os f e v) (snd (stop_qdrant (machine_os f e v) s)))) =
     out (snd (stop_qdrant (machine_os f e v) s)) @ [Run docker_stop]"
  by (simp add: stop_qdrant_def [of _ "snd (stop_qdrant (machine_os f e v) s)"] subprocess_run_def
        machine_stop stop_qdrant_machine engine_stop_def named_purge exited_def)

text \<open>
  Claim C8. \<open>stop_qdrant\<close> never lets an exception out, whatever the commands do. On
  the machine, a second call after a first one returns normally too, prints nothing (its
  \<open>docker stop\<close> fails and the failure is swallowed) and leaves the machine as the first
  call left it; with Docker installed, no container of the service's name is left.
\<close>

theorem cleanup_idempotent:
  "fst (stop_qdrant sys s) = Returned ()
   \<and> fst (stop_qdrant (machine_os f e v) (snd (stop_qdrant (machine_os f e v) t))) = Returned ()
   \<and> out (snd (stop_qdrant (machine_os f e v) (snd (stop_qdrant (machine_os f e v) t)))) =
       out (snd (stop_qdrant (machine_os f e v) t)) @ [Run docker_stop]
   \<and> world (snd (stop_qdrant (machine_os f e v) (snd (stop_qdrant (machine_os f e v) t)))) =
       world (snd (stop_qdrant (machine_os f e v) t))
   \<and> (docker_installed (world t) \<longrightarrow>
        named container_name (world (snd (stop_qdrant (machine_os f e v) t))) = [])"
  by (simp add: stop_qdrant_returns stop_twice_out stop_qdrant_machine named_purge purge_idem)

theorem cleanup_idempotent_witness:
  "docker_installed serving
   \<and> live container_name serving \<noteq> []
   \<and> named container_name (world (snd (stop_qdrant plain_os (initial serving [])))) = []
   \<and> out (snd (stop_qdrant plain_os (initial serving []))) = [Run docker_stop, Run docker_rm, Print QdrantStopped]
   \<and> out (snd (stop_qdrant plain_os (snd (stop_qdrant plain_os (initial serving []))))) =
        [Run docker_stop, Run docker_rm, Print QdrantStopped, Run docker_stop]"
proof -
  have i: "docker_installed (world (initial serving []))"
    by (simp add: initial_def serving_def healthy_def)
  have l: "live container_name serving \<noteq> []"
    by (simp add: live_def named_def serving_def healthy_def)
  have o: "out (snd (stop_qdrant plain_os (initial serving []))) = [Run docker_stop, Run docker_rm, Print QdrantStopped]"
    by code_simp
  show ?thesis
    using cleanup_idempotent [of plain_os "initial serving []" all_files "''/usr/bin/python3''" "[]" "initial serving []"] i l o
    by (simp add: plain_os_def initial_def)
qed

text \<open>
  Claim C7. \<open>start_qdrant\<close> runs \<open>docker stop\<close> first, then \<open>docker rm\<close> (unless the
  stop could not even be launched), then \<open>docker run\<close>, whatever the first two do. On
  the machine, any number of calls in a row keeps at most one running container of the
  service's name, and with a working engine the calls leave exactly one container of
  that name: the one the last call launched.
\<close>

theorem start_at_most_one_instance:
  "commands (out (snd (start_qdrant sys s))) =
     commands (out s) @ docker_stop #
       (case fst (spawn sys docker_stop (world s)) of Child rt cp \<Rightarrow> [docker_rm] | _ \<Rightarrow> []) @
       [docker_run (getcwd sys)]
   \<and> (length (live container_name (world t)) \<le> 1 \<longrightarrow>
        length (live container_name (world (start_times k (machine_os f e v) t))) \<le> 1)
   \<and> (docker_installed (world t) \<and> launch_rc (world t) = 0 \<longrightarrow>
        named container_name (world (start_times (Suc k) (machine_os f e v) t)) =
          [\<lparr>cid = next_cid (world t) + k, cname = container_name, running = True\<rparr>])"
  using start_qdrant_commands [of sys s] start_times_live [of t k f e v] start_times_fresh [of t k f e v]
  by blast

theorem start_at_most_one_instance_witness:
  "length (live container_name serving) \<le> 1
   \<and> docker_installed serving \<and> launch_rc serving = 0
   \<and> named container_name (world (start_times 2 plain_os (initial serving []))) =
        [\<lparr>cid = 2, cname = container_name, running = True\<rparr>]
   \<and> length (live container_name (world (start_times 2 plain_os (initial serving [])))) \<le> 1"
proof -
  have a: "length (live container_name (world (initial serving []))) \<le> 1"
    by (simp add: live_def named_def serving_def healthy_def initial_def)
  have b: "docker_installed (world (initial serving [])) \<and> launch_rc (world (initial serving [])) = 0"
    by (simp add: serving_def healthy_def initial_def)
  have c: "next_cid (world (initial serving [])) = 1"
    by (simp add: serving_def healthy_def initial_def)
  show ?thesis
    using start_at_most_one_instance [of plain_os "initial serving []" "initial serving []" 2 all_files "''/usr/bin/python3''" "[]"]
          start_at_most_one_instance [of plain_os "initial serving []" "initial serving []" 1 all_files "''/usr/bin/python3''" "[]"]
          a b c
    by (simp add: plain_os_def initial_def numeral_2_eq_2)
qed

subsection \<open>The driver\<close>

lemma check_cleanup: "cleanup_count (out (snd (check_qdrant_running sys s))) = cleanup_count (out s)"
  by (simp add: check_qdrant_running_def run_defs split: option.splits)

lemma remove_existing_cleanup: "cleanup_count (out (remove_existing sys s)) = cleanup_count (out s)"
  by (simp add: remove_existing_def run_defs split: prod.splits result.splits)

lemma start_cleanup: "cleanup_count (out (snd (start_qdrant sys s))) = cleanup_count (out s)"
proof -
  have "cleanup_count (out (remove_existing sys (emit (Print StartingQdrant) s))) = cleanup_count (out s)"
    by (simp add: remove_existing_cleanup run_defs)
  then show ?thesis
    by (simp add: start_qdrant_def run_defs split: prod.splits result.splits exc.splits)
qed

lemma install_cleanup: "cleanup_count (out (snd (install_dependencies sys s))) = cleanup_count (out s)"
  by (simp add: install_dependencies_def run_defs split: prod.splits result.splits exc.splits)

lemma stop_cleanup: "cleanup_count (out (snd (stop_qdrant sys s))) = cleanup_count (out s)"
  by (simp add: stop_qdrant_def run_defs split: prod.splits result.splits exc.splits)

lemma run_example_cleanup: "cleanup_count (out (snd (run_example sys n p s))) = cleanup_count (out s)"
  by (simp add: run_example_def run_defs split: prod.splits result.splits exc.splits)

lemma run_tests_cleanup: "cleanup_count (out (snd (run_tests sys s))) = cleanup_count (out s)"
  by (simp add: run_tests_def run_defs split: prod.splits result.splits exc.splits)

lemma run_examples_cleanup: "cleanup_count (out (snd (run_examples sys xs s))) = cleanup_count (out s)"
proof (induction xs arbitrary: s)
  case Nil
  show ?case by simp
next
  case (Cons x xs)
  obtain n p where x: "x = (n, p)" by (cases x)
  obtain s' where r: "run_example sys n p s = (Returned (), s')"
    using run_example_returns [of sys n p s] by (cases "run_example sys n p s") simp
  have a: "cleanup_count (out s') = cleanup_count (out s)"
    using run_example_cleanup [of sys n p s] by (simp add: r)
  show ?case
  proof (cases "path_exists sys p")
    case True
    then show ?thesis using Cons.IH [of s'] by (simp add: x r a)
  next
    case False
    then show ?thesis
      using Cons.IH [of "emit (Print (ExampleFileNotFound p)) s"]
      by (simp add: x run_defs)
  qed
qed

lemma main_teardown_cleanup:
  "cleanup_count (out (snd (main_teardown sys s))) = Suc (cleanup_count (out s))"
proof (cases "stdin s")
  case Nil
  then show ?thesis by (simp add: main_teardown_def input_def run_defs)
next
  case (Cons l ls)
  then show ?thesis
    by (simp add: main_teardown_def input_def stop_cleanup run_defs)
qed

lemma main_tasks_cleanup:
  "cleanup_count (out (snd (main_tasks sys s))) = Suc (cleanup_count (out s))"
proof -
  obtain s1 where r1: "run_examples sys examples s = (Returned (), s1)"
    using run_examples_returns [of sys examples s] by (cases "run_examples sys examples s") simp
  have a1: "cleanup_count (out s1) = cleanup_count (out s)"
    using run_examples_cleanup [of sys examples s] by (simp add: r1)
  show ?thesis
  proof (cases "path_exists sys ''tests/''")
    case True
    obtain s2 where r2: "run_tests sys s1 = (Returned (), s2)"
      using run_tests_returns [of sys s1] by (cases "run_tests sys s1") simp
    have a2: "cleanup_count (out s2) = cleanup_count (out s1)"
      using run_tests_cleanup [of sys s1] by (simp add: r2)
    show ?thesis using True by (simp add: main_tasks_def r1 r2 main_teardown_cleanup a1 a2)
  next
    case False
    then show ?thesis
      by (simp add: main_tasks_def r1 main_teardown_cleanup a1 run_defs)
  qed
qed

lemma main_dependencies_cleanup:
  "cleanup_count (out (snd (main_dependencies sys s))) = cleanup_count (out s)"
proof (cases "uses_uv sys")
  case True
  then show ?thesis by (simp add: main_dependencies_def run_defs)
next
  case False
  obtain r s1 where i: "install_dependencies sys s = (r, s1)" by (cases "install_dependencies sys s")
  have a: "cleanup_count (out s1) = cleanup_count (out s)"
    using install_cleanup [of sys s] by (simp add: i)
  show ?thesis using False
    by (cases r) (simp_all add: main_dependencies_def i a run_defs)
qed

lemma main_service_cleanup:
  "cleanup_count (out (snd (main_service sys s))) = cleanup_count (out s)"
proof -
  let ?s1 = "emit (Print Rule) (emit (Print Title) s)"
  obtain up s2 where c: "check_qdrant_running sys ?s1 = (Returned up, s2)"
    by (cases "check_qdrant_running sys ?s1")
       (auto simp add: check_qdrant_running_def split: option.splits)
  have a2: "cleanup_count (out s2) = cleanup_count (out s)"
    using check_cleanup [of sys ?s1] by (simp add: c run_defs)
  show ?thesis
  proof (cases up)
    case True
    then show ?thesis by (simp add: main_service_def c a2 run_defs)
  next
    case False
    show ?thesis
    proof (cases "stdin s2")
      case Nil
      then show ?thesis using False by (simp add: main_service_def c a2 input_def run_defs)
    next
      case (Cons l ls)
      let ?s3 = "(emit (Input StartPrompt) (emit (Print QdrantNotRunning) s2))\<lparr>stdin := ls\<rparr>"
      obtain r s4 where st: "start_qdrant sys ?s3 = (r, s4)" by (cases "start_qdrant sys ?s3")
      have a4: "cleanup_count (out s4) = cleanup_count (out s)"
        using start_cleanup [of sys ?s3] by (simp add: st a2 run_defs)
      show ?thesis using False Cons
        by (cases r) (simp_all add: main_service_def c a2 input_def st a4 run_defs)
    qed
  qed
qed

lemma main_setup_cleanup:
  "cleanup_count (out (snd (main_setup sys s))) = cleanup_count (out s)"
proof -
  obtain r s1 where m: "main_service sys s = (r, s1)" by (cases "main_service sys s")
  have a: "cleanup_count (out s1) = cleanup_count (out s)"
    using main_service_cleanup [of sys s] by (simp add: m)
  show ?thesis
    by (cases r) (simp_all add: main_setup_def m a main_dependencies_cleanup split: bool.splits)
qed

lemma main_cleanup:
  "cleanup_count (out (snd (main sys s))) =
     cleanup_count (out s) + (if fst (main_setup sys s) = Returned True then 1 else 0)"
proof -
  obtain r s1 where m: "main_setup sys s = (r, s1)" by (cases "main_setup sys s")
  have a: "cleanup_count (out s1) = cleanup_count (out s)"
    using main_setup_cleanup [of sys s] by (simp add: m)
  show ?thesis
    by (cases r) (simp_all add: main_def m a main_tasks_cleanup split: bool.splits)
qed

lemma run_examples_stdin: "stdin (snd (run_examples sys xs s)) = stdin s"
proof (induction xs arbitrary: s)
  case Nil
  show ?case by simp
next
  case (Cons x xs)
  obtain n p where x: "x = (n, p)" by (cases x)
  obtain s' where r: "run_example sys n p s = (Returned (), s')"
    using run_example_returns [of sys n p s] by (cases "run_example sys n p s") simp
  have a: "stdin s' = stdin s"
    using run_example_stdin [of sys n p s] by (simp add: r)
  show ?case
    using Cons.IH [of s'] Cons.IH [of "emit (Print (ExampleFileNotFound p)) s"]
    by (simp add: x r a run_defs)
qed

lemma main_teardown_returns: "stdin s \<noteq> [] \<Longrightarrow> fst (main_teardown sys s) = Returned ()"
  by (cases "stdin s") (simp_all add: main_teardown_def input_def run_defs stop_qdrant_returns)

lemma main_tasks_returns: "stdin s \<noteq> [] \<Longrightarrow> fst (main_tasks sys s) = Returned ()"
proof -
  assume ne: "stdin s \<noteq> []"
  obtain s1 where r1: "run_examples sys examples s = (Returned (), s1)"
    using run_examples_returns [of sys examples s] by (cases "run_examples sys examples s") simp
  have a1: "stdin s1 = stdin s"
    using run_examples_stdin [of sys examples s] by (simp add: r1)
  obtain s2 where r2: "run_tests sys s1 = (Returned (), s2)"
    using run_tests_returns [of sys s1] by (cases "run_tests sys s1") simp
  have a2: "stdin s2 = stdin s1"
    using run_tests_stdin [of sys s1] by (simp add: r2)
  show ?thesis using ne
    by (simp add: main_tasks_def r1 r2 a1 a2 main_teardown_returns run_defs)
qed

lemma declined:
  "http_get sys w \<noteq> Some 200 \<Longrightarrow> lower r \<noteq> ''y'' \<Longrightarrow>
   main sys (initial w (r # rest)) =
     (Returned (),
      \<lparr>world = w, stdin = rest,
       out = [Print Title, Print Rule, Get, Print QdrantNotRunning, Input StartPrompt,
              Print PleaseStartManually, Print ManualCommand],
       clock = 0\<rparr>)"
  by (simp add: main_def main_setup_def main_service_def check_qdrant_running_def input_def
        initial_def emit_def Let_def split: option.splits)

text \<open>
  Claim C1, as the specification states it, fails: cleanup is not reached on every path
  of an invocation that started the service. On a machine where the installation of the
  dependencies fails, the driver starts the container, prints that it cannot proceed and
  returns; the teardown question is never asked and the container is left running.
\<close>

theorem cleanup_skipped_counterexample:
  "out (snd (main plain_os (initial broken_pip [''y'', ''y'']))) =
     [Print Title, Print Rule, Get, Print QdrantNotRunning, Input StartPrompt,
      Print StartingQdrant, Run docker_stop, Run docker_rm,
      Run (docker_run ''/home/user/qdrant-quickstart''), Print QdrantStarted,
      Print InstallingDependencies, Run pip_install, Print (FailedToInstallDependencies 1),
      Print CannotProceedWithoutDependencies]
   \<and> fst (main plain_os (initial broken_pip [''y'', ''y''])) = Returned ()
   \<and> cleanup_count (out (snd (main plain_os (initial broken_pip [''y'', ''y''])))) = 0
   \<and> live container_name (world (snd (main plain_os (initial broken_pip [''y'', ''y''])))) =
        [\<lparr>cid = 0, cname = container_name, running = True\<rparr>]"
  by code_simp

text \<open>
  Claim C1, amended. The teardown of lines 172 to 174 (the question, and the stop when
  the answer is yes) is reached at most once in an invocation, and exactly once in every
  invocation whose setup completes: the service answers or was started, and the
  dependencies are there.
\<close>

theorem cleanup_once_after_setup:
  "cleanup_count (out (snd (main sys (initial w lines)))) \<le> 1
   \<and> (fst (main_setup sys (initial w lines)) = Returned True \<longrightarrow>
        cleanup_count (out (snd (main sys (initial w lines)))) = 1)"
  using main_cleanup [of sys "initial w lines"]
  by (simp add: initial_def cleanup_count_Nil)

theorem cleanup_once_after_setup_witness:
  "fst (main_setup plain_os (initial healthy [''y'', ''y''])) = Returned True
   \<and> cleanup_count (out (snd (main plain_os (initial healthy [''y'', ''y''])))) = 1"
proof -
  have "fst (main_setup plain_os (initial healthy [''y'', ''y''])) = Returned True"
    by code_simp
  then show ?thesis
    using cleanup_once_after_setup [of plain_os healthy "[''y'', ''y'']"] by simp
qed

text \<open>
  Claim C2, as the specification states it, fails: when the service does not answer and
  the start is declined, \<open>main\<close> returns and the exit status is 0, not a failure status.
\<close>

theorem declined_exit_counterexample:
  "http_get uv_os healthy = None
   \<and> fst (main uv_os (initial healthy [''n''])) = Returned ()
   \<and> attempts (out (snd (main uv_os (initial healthy [''n''])))) = []
   \<and> exit_status uv_os (initial healthy [''n'']) = 0"
  by code_simp

text \<open>
  Claim C2, amended. With the service not answering and the start declined, the driver
  prints how to start the service, runs nothing, and ends with exit status 0. When the
  setup completes and there is an answer to the teardown question, the exit status is 0
  whatever the tasks did.
\<close>

theorem exit_status_zero:
  "(http_get sys w \<noteq> Some 200 \<and> lower r \<noteq> ''y'' \<longrightarrow>
      main sys (initial w (r # rest)) =
        (Returned (),
         \<lparr>world = w, stdin = rest,
          out = [Print Title, Print Rule, Get, Print QdrantNotRunning, Input StartPrompt,
                 Print PleaseStartManually, Print ManualCommand],
          clock = 0\<rparr>)
      \<and> exit_status sys (initial w (r # rest)) = 0)
   \<and> (fst (main_setup sys s) = Returned True \<and> stdin (snd (main_setup sys s)) \<noteq> [] \<longrightarrow>
        exit_status sys s = 0)"
proof (intro conjI impI)
  assume a: "http_get sys w \<noteq> Some 200 \<and> lower r \<noteq> ''y''"
  then show "main sys (initial w (r # rest)) =
        (Returned (),
         \<lparr>world = w, stdin = rest,
          out = [Print Title, Print Rule, Get, Print QdrantNotRunning, Input StartPrompt,
                 Print PleaseStartManually, Print ManualCommand],
          clock = 0\<rparr>)"
    by (simp add: declined)
  with a show "exit_status sys (initial w (r # rest)) = 0"
    by (simp add: exit_status_def)
next
  assume b: "fst (main_setup sys s) = Returned True \<and> stdin (snd (main_setup sys s)) \<noteq> []"
  obtain s1 where m: "main_setup sys s = (Returned True, s1)"
    using b by (cases "main_setup sys s") simp
  have "stdin s1 \<noteq> []" using b by (simp add: m)
  then have "fst (main_tasks sys s1) = Returned ()" by (rule main_tasks_returns)
  then show "exit_status sys s = 0"
    by (simp add: exit_status_def main_def m)
qed

theorem exit_status_zero_witness:
  "exit_status uv_os (initial healthy [''no'']) = 0
   \<and> out (snd (main uv_os (initial healthy [''no'']))) =
        [Print Title, Print Rule, Get, Print QdrantNotRunning, Input StartPrompt,
         Print PleaseStartManually, Print ManualCommand]
   \<and> statuses (out (snd (main partial_os (initial flaky [''n''])))) =
        [Failed, NotFound, Completed, Completed]
   \<and> exit_status partial_os (initial flaky [''n'']) = 0"
proof -
  have a: "http_get uv_os healthy \<noteq> Some 200 \<and> lower ''no'' \<noteq> ''y''" by code_simp
  have b: "fst (main_setup partial_os (initial flaky [''n''])) = Returned True
           \<and> stdin (snd (main_setup partial_os (initial flaky [''n'']))) \<noteq> []"
    by code_simp
  have c: "statuses (out (snd (main partial_os (initial flaky [''n''])))) =
        [Failed, NotFound, Completed, Completed]"
    by code_simp
  show ?thesis
    using exit_status_zero [of uv_os healthy "''no''" "[]" "initial healthy []"]
          exit_status_zero [of partial_os flaky "''n''" "[]" "initial flaky [''n'']"] a b c
    by simp
qed

subsection \<open>The report\<close>













subsection \<open>A start that fails\<close>

lemma start_qdrant_result:
  "fst (start_qdrant sys s) =
     (case fst (spawn sys (docker_run (getcwd sys)) (world (remove_existing sys (emit (Print StartingQdrant) s)))) of
        NoSuchProgram \<Rightarrow> Returned False
      | SpawnFailed \<Rightarrow> Raised OSError
      | Child rt cp \<Rightarrow> Returned (returncode cp = 0))"
  by (simp add: start_qdrant_def subprocess_run_def Let_def split: prod.splits proc.splits)

lemma remove_existing_attempts: "attempts (out (remove_existing sys s)) = attempts (out s)"
  by (simp add: remove_existing_def run_defs attempts_append docker_stop_def docker_rm_def uv_pytest_def
      split: prod.splits result.splits)

lemma remove_existing_statuses: "statuses (out (remove_existing sys s)) = statuses (out s)"
  by (simp add: remove_existing_def run_defs statuses_append split: prod.splits result.splits)

lemma start_qdrant_attempts: "attempts (out (snd (start_qdrant sys s))) = attempts (out s)"
proof -
  have "attempts (out (remove_existing sys (emit (Print StartingQdrant) s))) = attempts (out s)"
    by (simp add: remove_existing_attempts run_defs attempts_append)
  then show ?thesis
    by (simp add: start_qdrant_def run_defs attempts_append docker_run_def uv_pytest_def
        split: prod.splits result.splits exc.splits)
qed

lemma start_qdrant_statuses: "statuses (out (snd (start_qdrant sys s))) = statuses (out s)"
proof -
  have "statuses (out (remove_existing sys (emit (Print StartingQdrant) s))) = statuses (out s)"
    by (simp add: remove_existing_statuses run_defs statuses_append)
  then show ?thesis
    by (simp add: start_qdrant_def run_defs statuses_append split: prod.splits result.splits exc.splits)
qed

lemma main_service_yes:
  "http_get sys w \<noteq> Some 200 \<Longrightarrow> lower r = ''y'' \<Longrightarrow>
   main_service sys (initial w (r # rest)) =
     (case start_qdrant sys (asked w rest) of
        (Raised e, s4) \<Rightarrow> (Raised e, s4)
      | (Returned started, s4) \<Rightarrow>
          (if \<not> started then (Returned False, emit (Print CannotProceedWithoutQdrant) s4)
           else (Returned True, s4)))"
  by (cases "http_get sys w")
     (simp_all add: main_service_def check_qdrant_running_def input_def initial_def emit_def asked_def Let_def)

text \<open>
  Claim C9. When the service does not answer, the answer to the first question is yes,
  and the launch fails because there is no \<open>docker\<close> program or because \<open>docker run\<close>
  ends with a non-zero exit code, \<open>main\<close> prints that it cannot proceed and returns: no
  task is launched or reported, and the teardown is not reached.
\<close>

theorem start_failure_aborts:
  "http_get sys w \<noteq> Some 200 \<and> lower r = ''y''
   \<and> start_fails (fst (spawn sys (docker_run (getcwd sys))
                      (world (remove_existing sys (emit (Print StartingQdrant) (asked w rest)))))) \<longrightarrow>
   fst (main sys (initial w (r # rest))) = Returned ()
   \<and> attempts (out (snd (main sys (initial w (r # rest))))) = []
   \<and> statuses (out (snd (main sys (initial w (r # rest))))) = []
   \<and> cleanup_count (out (snd (main sys (initial w (r # rest))))) = 0
   \<and> last (out (snd (main sys (initial w (r # rest))))) = Print CannotProceedWithoutQdrant"
proof (intro impI, elim conjE)
  assume down: "http_get sys w \<noteq> Some 200" and yes: "lower r = ''y''"
    and fails: "start_fails (fst (spawn sys (docker_run (getcwd sys))
                  (world (remove_existing sys (emit (Print StartingQdrant) (asked w rest))))))"
  obtain res s4 where st: "start_qdrant sys (asked w rest) = (res, s4)"
    by (cases "start_qdrant sys (asked w rest)")
  have res: "res = Returned False"
    using start_qdrant_result [of sys "asked w rest"] fails
    by (simp add: st split: proc.splits)
  have a: "attempts (out s4) = []"
    using start_qdrant_attempts [of sys "asked w rest"] unfolding st by (simp add: asked_def)
  have b: "statuses (out s4) = []"
    using start_qdrant_statuses [of sys "asked w rest"] unfolding st by (simp add: asked_def)
  have c: "cleanup_count (out s4) = 0"
    using start_cleanup [of sys "asked w rest"] unfolding st by (simp add: asked_def run_defs)
  have m: "main sys (initial w (r # rest)) = (Returned (), emit (Print CannotProceedWithoutQdrant) s4)"
    by (simp add: main_def main_setup_def main_service_yes [OF down yes] st res)
  show "fst (main sys (initial w (r # rest))) = Returned ()
   \<and> attempts (out (snd (main sys (initial w (r # rest))))) = []
   \<and> statuses (out (snd (main sys (initial w (r # rest))))) = []
   \<and> cleanup_count (out (snd (main sys (initial w (r # rest))))) = 0
   \<and> last (out (snd (main sys (initial w (r # rest))))) = Print CannotProceedWithoutQdrant"
    by (simp add: m a b c run_defs attempts_append statuses_append)
qed

theorem start_failure_aborts_witness:
  "out (snd (main plain_os (initial dockerless [''y'']))) =
     [Print Title, Print Rule, Get, Print QdrantNotRunning, Input StartPrompt,
      Print StartingQdrant, Run docker_stop, Run (docker_run ''/home/user/qdrant-quickstart''),
      Print DockerNotFound, Print CannotProceedWithoutQdrant]
   \<and> attempts (out (snd (main plain_os (initial dockerless [''y''])))) = []
   \<and> last (out (snd (main plain_os (initial no_image [''Y''])))) = Print CannotProceedWithoutQdrant
   \<and> attempts (out (snd (main plain_os (initial no_image [''Y''])))) = []"
proof -
  have d1: "http_get plain_os dockerless \<noteq> Some 200" by code_simp
  have d2: "http_get plain_os no_image \<noteq> Some 200" by code_simp
  have y1: "lower ''y'' = ''y''" and y2: "lower ''Y'' = ''y''" by code_simp+
  have f1: "start_fails (fst (spawn plain_os (docker_run (getcwd plain_os))
              (world (remove_existing plain_os (emit (Print StartingQdrant) (asked dockerless []))))))"
    by code_simp
  have f2: "start_fails (fst (spawn plain_os (docker_run (getcwd plain_os))
              (world (remove_existing plain_os (emit (Print StartingQdrant) (asked no_image []))))))"
    by code_simp
  have o: "out (snd (main plain_os (initial dockerless [''y'']))) =
     [Print Title, Print Rule, Get, Print QdrantNotRunning, Input StartPrompt,
      Print StartingQdrant, Run docker_stop, Run (docker_run ''/home/user/qdrant-quickstart''),
      Print DockerNotFound, Print CannotProceedWithoutQdrant]"
    by code_simp
  show ?thesis
    using start_failure_aborts [of plain_os dockerless "''y''" "[]"]
          start_failure_aborts [of plain_os no_image "''Y''" "[]"]
          d1 d2 y1 y2 f1 f2 o
    by simp
qed

subsection \<open>The two questions\<close>

lemma start_qdrant_announces: "Print StartingQdrant \<in> set (out (snd (start_qdrant sys s)))"
  by (simp add: start_qdrant_def remove_existing_def run_defs
      split: prod.splits result.splits exc.splits)

lemma stop_qdrant_announces: "Run docker_stop \<in> set (out (snd (stop_qdrant sys s)))"
  by (simp add: stop_qdrant_def run_defs split: prod.splits result.splits exc.splits)

lemma main_service_starts:
  assumes "http_get sys w \<noteq> Some 200"
  shows "Print StartingQdrant \<in> set (out (snd (main_service sys (initial w (r # rest))))) \<longleftrightarrow>
         lower r = ''y''"
proof (cases "lower r = ''y''")
  case True
  obtain res s4 where st: "start_qdrant sys (asked w rest) = (res, s4)"
    by (cases "start_qdrant sys (asked w rest)")
  have "Print StartingQdrant \<in> set (out s4)"
    using start_qdrant_announces [of sys "asked w rest"] unfolding st by simp
  then show ?thesis using True
    by (cases res) (simp_all add: main_service_yes [OF assms True] st run_defs)
next
  case False
  then show ?thesis using assms
    by (cases "http_get sys w")
       (simp_all add: main_service_def check_qdrant_running_def input_def initial_def emit_def Let_def)
qed

lemma main_teardown_stops:
  "Run docker_stop \<in> set (out (snd (main_teardown sys (initial w (r # rest))))) \<longleftrightarrow> lower r = ''y''"
  by (simp add: main_teardown_def input_def initial_def emit_def Let_def stop_qdrant_announces)

text \<open>
  Claim C10. An answer counts as yes exactly when its lowercase form is the single
  letter \<open>y\<close>, that is, when it is \<open>y\<close> or \<open>Y\<close>. With the service not answering, \<open>main\<close>
  calls \<open>start_qdrant\<close> exactly for such an answer to the first question; at the end it
  calls \<open>stop_qdrant\<close> exactly for such an answer to the second.
\<close>

theorem decision_is_single_letter:
  "(lower r = ''y'' \<longleftrightarrow> r = ''y'' \<or> r = ''Y'')
   \<and> (http_get sys w \<noteq> Some 200 \<longrightarrow>
        (Print StartingQdrant \<in> set (out (snd (main_service sys (initial w (r # rest))))) \<longleftrightarrow>
         lower r = ''y''))
   \<and> (Run docker_stop \<in> set (out (snd (main_teardown sys (initial w (r # rest))))) \<longleftrightarrow>
        lower r = ''y'')"
  using lower_y [of r] main_service_starts [of sys w r rest] main_teardown_stops [of sys w r rest]
  by blast

theorem decision_is_single_letter_witness:
  "lower ''yes'' \<noteq> ''y'' \<and> lower [] \<noteq> ''y'' \<and> lower ''Y'' = ''y''
   \<and> Print StartingQdrant \<notin> set (out (snd (main_service uv_os (initial healthy [''yes'']))))
   \<and> Run docker_stop \<notin> set (out (snd (main_teardown uv_os (initial serving [[]]))))
   \<and> Print StartingQdrant \<in> set (out (snd (main_service uv_os (initial healthy [''Y'']))))
   \<and> Run docker_stop \<in> set (out (snd (main_teardown uv_os (initial serving [''Y'']))))"
proof -
  have d: "http_get uv_os healthy \<noteq> Some 200" by code_simp
  show ?thesis
    using decision_is_single_letter [of "''yes''" uv_os healthy "[]"]
          decision_is_single_letter [of "[]" uv_os serving "[]"]
          decision_is_single_letter [of "''Y''" uv_os healthy "[]"]
          decision_is_single_letter [of "''Y''" uv_os serving "[]"]
          d
    by simp
qed

end
